theory Spec2Isabelle
  imports Main "HOL-Library.Word" "HOL-Library.Monad_Syntax"
begin

section \<open>Reference-counted handles of \<^verbatim>\<open>smart_ptrs.h\<close>\<close>

text \<open>
  The header defines two classes over one heap-allocated \<^verbatim>\<open>ControlBlock\<close>:
  \<^verbatim>\<open>SharedPtr\<close> (the owning handle) and \<^verbatim>\<open>WeakPtr\<close> (the observer handle).
  Both hold a raw \<^verbatim>\<open>std::string*\<close> and a \<^verbatim>\<open>ControlBlock*\<close>.

  Pointers are modelled as \<open>addr option\<close>, \<open>None\<close> being \<^verbatim>\<open>nullptr\<close>. The two counters
  are \<^verbatim>\<open>size_t\<close>, taken here as 64-bit words, so \<^verbatim>\<open>++\<close> and \<^verbatim>\<open>--\<close> wrap as in the source.
  Control blocks live in an explicit heap, because several handles alias one block.
  Reading or writing through a \<^verbatim>\<open>ControlBlock*\<close> that does not point to a live block is
  undefined behaviour in C++; every function that dereferences a block therefore returns
  an \<open>option\<close>, and \<open>None\<close> stands for that undefined behaviour.
\<close>

subsection \<open>Data\<close>

type_synonym addr = nat
type_synonym size_t = "64 word"

record ControlBlock =
  shared_count :: size_t
  weak_count :: size_t

text \<open>
  The heap: the live control blocks, the allocator's next address (addresses are never
  handed out twice), and a log of every \<^verbatim>\<open>delete\<close> the code executes, newest first, one
  log for control blocks and one for the owned strings.
\<close>

record heap =
  blocks :: "addr \<rightharpoonup> ControlBlock"
  next_block :: addr
  deleted_blocks :: "addr list"
  deleted_strings :: "addr list"

record SharedPtr =
  sp_ptr :: "addr option"
  sp_block :: "addr option"

record WeakPtr =
  wp_block :: "addr option"
  wp_ptr :: "addr option"

subsection \<open>Heap primitives\<close>

text \<open>\<^verbatim>\<open>new ControlBlock()\<close>: both counters start at 0 (the default member initialisers).\<close>

definition new_ControlBlock :: "heap \<Rightarrow> heap \<times> addr" where
  "new_ControlBlock h =
     (let b = next_block h
      in (h\<lparr>blocks := (blocks h)(b \<mapsto> \<lparr>shared_count = 0, weak_count = 0\<rparr>),
            next_block := Suc b\<rparr>, b))"

text \<open>A read-modify-write of a block's fields through a pointer.\<close>

definition modify :: "addr \<Rightarrow> (ControlBlock \<Rightarrow> ControlBlock) \<Rightarrow> heap \<Rightarrow> heap option" where
  "modify b f h =
     (case blocks h b of
        None \<Rightarrow> None
      | Some cb \<Rightarrow> Some (h\<lparr>blocks := (blocks h)(b \<mapsto> f cb)\<rparr>))"

text \<open>\<^verbatim>\<open>delete block_\<close>: the block must be live.\<close>

definition delete_block :: "addr \<Rightarrow> heap \<Rightarrow> heap option" where
  "delete_block b h =
     (case blocks h b of
        None \<Rightarrow> None
      | Some cb \<Rightarrow> Some (h\<lparr>blocks := (blocks h)(b := None),
                           deleted_blocks := b # deleted_blocks h\<rparr>))"

text \<open>
  \<^verbatim>\<open>delete ptr_\<close>: deleting \<^verbatim>\<open>nullptr\<close> does nothing; any other delete is logged, also a
  repeated one, so that a double delete shows as a duplicate in the log.
\<close>

definition delete_string :: "addr option \<Rightarrow> heap \<Rightarrow> heap" where
  "delete_string p h =
     (case p of
        None \<Rightarrow> h
      | Some a \<Rightarrow> h\<lparr>deleted_strings := a # deleted_strings h\<rparr>)"

subsection \<open>\<^verbatim>\<open>SharedPtr\<close>\<close>

text \<open>\<^verbatim>\<open>SharedPtr() = default\<close>, and the value of \<^verbatim>\<open>return {}\<close>.\<close>

definition SharedPtr_default :: SharedPtr where
  "SharedPtr_default = \<lparr>sp_ptr = None, sp_block = None\<rparr>"

text \<open>\<^verbatim>\<open>explicit SharedPtr(std::string* ptr)\<close>\<close>

definition SharedPtr_from_raw :: "heap \<Rightarrow> addr option \<Rightarrow> (heap \<times> SharedPtr) option" where
  "SharedPtr_from_raw h ptr =
     (let this = \<lparr>sp_ptr = ptr, sp_block = None\<rparr>
      in if ptr \<noteq> None then
           (let (h1, b) = new_ControlBlock h
            in do {
              h2 \<leftarrow> modify b (\<lambda>cb. cb\<lparr>shared_count := shared_count cb + 1\<rparr>) h1;
              Some (h2, this\<lparr>sp_block := Some b\<rparr>)
            })
         else Some (h, this))"

text \<open>\<^verbatim>\<open>SharedPtr(const SharedPtr& other)\<close>\<close>

definition SharedPtr_copy :: "heap \<Rightarrow> SharedPtr \<Rightarrow> (heap \<times> SharedPtr) option" where
  "SharedPtr_copy h other =
     (let this = \<lparr>sp_ptr = sp_ptr other, sp_block = sp_block other\<rparr>
      in case sp_block this of
           Some b \<Rightarrow> do {
             h1 \<leftarrow> modify b (\<lambda>cb. cb\<lparr>shared_count := shared_count cb + 1\<rparr>) h;
             Some (h1, this)
           }
         | None \<Rightarrow> Some (h, this))"

text \<open>
  \<^verbatim>\<open>SharedPtr(SharedPtr&& other)\<close>: returns the new handle and the updated source.
  No block is dereferenced, so the heap is not an argument.
\<close>

definition SharedPtr_move :: "SharedPtr \<Rightarrow> SharedPtr \<times> SharedPtr" where
  "SharedPtr_move other =
     (let this = \<lparr>sp_ptr = sp_ptr other, sp_block = sp_block other\<rparr>
      in (this, other\<lparr>sp_block := None, sp_ptr := None\<rparr>))"

text \<open>\<^verbatim>\<open>SharedPtr::SharedPtr(const WeakPtr& ptr)\<close>, the upgrade.\<close>

definition SharedPtr_from_weak :: "heap \<Rightarrow> WeakPtr \<Rightarrow> (heap \<times> SharedPtr) option" where
  "SharedPtr_from_weak h ptr =
     (case wp_block ptr of
        Some b \<Rightarrow> do {
          cb \<leftarrow> blocks h b;
          if 0 < shared_count cb then do {
            h1 \<leftarrow> modify b (\<lambda>cb. cb\<lparr>shared_count := shared_count cb + 1\<rparr>) h;
            Some (h1, \<lparr>sp_ptr = wp_ptr ptr, sp_block = Some b\<rparr>)
          }
          else Some (h, \<lparr>sp_ptr = None, sp_block = None\<rparr>)
        }
      | None \<Rightarrow> Some (h, \<lparr>sp_ptr = None, sp_block = None\<rparr>))"

text \<open>\<^verbatim>\<open>void SharedPtr::Release()\<close>: returns the heap and the updated \<^verbatim>\<open>*this\<close>.\<close>

definition SharedPtr_Release :: "heap \<Rightarrow> SharedPtr \<Rightarrow> (heap \<times> SharedPtr) option" where
  "SharedPtr_Release h this =
     (case sp_block this of
        Some b \<Rightarrow> do {
          h1 \<leftarrow> modify b (\<lambda>cb. cb\<lparr>shared_count := shared_count cb - 1\<rparr>) h;
          cb \<leftarrow> blocks h1 b;
          if shared_count cb = 0 then
            (let h2 = delete_string (sp_ptr this) h1;
                 this2 = this\<lparr>sp_ptr := None\<rparr>
             in if weak_count cb = 0 then do {
                  h3 \<leftarrow> delete_block b h2;
                  Some (h3, this2\<lparr>sp_block := None\<rparr>)
                }
                else Some (h2, this2))
          else Some (h1, this)
        }
      | None \<Rightarrow> Some (h, this))"

text \<open>
  The body of \<^verbatim>\<open>operator=(const SharedPtr& other)\<close> under \<^verbatim>\<open>this != &other\<close>; the
  identity test itself needs the objects' addresses and is made where handles are stored
  (\<open>SharedPtr_copy_assign\<close> below).
\<close>

definition SharedPtr_copy_assign_body ::
    "heap \<Rightarrow> SharedPtr \<Rightarrow> SharedPtr \<Rightarrow> (heap \<times> SharedPtr) option" where
  "SharedPtr_copy_assign_body h this other = do {
     (h1, this1) \<leftarrow> SharedPtr_Release h this;
     let this2 = this1\<lparr>sp_ptr := sp_ptr other, sp_block := sp_block other\<rparr>;
     case sp_block this2 of
       Some b \<Rightarrow> do {
         h2 \<leftarrow> modify b (\<lambda>cb. cb\<lparr>shared_count := shared_count cb + 1\<rparr>) h1;
         Some (h2, this2)
       }
     | None \<Rightarrow> Some (h1, this2)
   }"

text \<open>
  The body of \<^verbatim>\<open>operator=(SharedPtr&& other)\<close> under \<^verbatim>\<open>this != &other\<close>: returns the
  heap, the updated \<^verbatim>\<open>*this\<close> and the updated source.
\<close>

definition SharedPtr_move_assign_body ::
    "heap \<Rightarrow> SharedPtr \<Rightarrow> SharedPtr \<Rightarrow> (heap \<times> SharedPtr \<times> SharedPtr) option" where
  "SharedPtr_move_assign_body h this other = do {
     (h1, this1) \<leftarrow> SharedPtr_Release h this;
     let this2 = this1\<lparr>sp_ptr := sp_ptr other, sp_block := sp_block other\<rparr>;
     Some (h1, this2, other\<lparr>sp_block := None, sp_ptr := None\<rparr>)
   }"

text \<open>\<^verbatim>\<open>std::string* Get() const\<close>\<close>

definition Get :: "SharedPtr \<Rightarrow> addr option" where
  "Get this = sp_ptr this"

text \<open>\<^verbatim>\<open>void Reset(std::string* new_ptr = nullptr)\<close>\<close>

definition Reset :: "heap \<Rightarrow> SharedPtr \<Rightarrow> addr option \<Rightarrow> (heap \<times> SharedPtr) option" where
  "Reset h this new_ptr = do {
     (h1, this1) \<leftarrow> SharedPtr_Release h this;
     if new_ptr \<noteq> None then
       (let (h2, b) = new_ControlBlock h1
        in do {
          h3 \<leftarrow> modify b (\<lambda>cb. cb\<lparr>shared_count := 1\<rparr>) h2;
          Some (h3, this1\<lparr>sp_ptr := new_ptr, sp_block := Some b\<rparr>)
        })
     else Some (h1, this1\<lparr>sp_ptr := None, sp_block := None\<rparr>)
   }"

subsection \<open>\<^verbatim>\<open>WeakPtr\<close>\<close>

text \<open>\<^verbatim>\<open>WeakPtr() = default\<close>\<close>

definition WeakPtr_default :: WeakPtr where
  "WeakPtr_default = \<lparr>wp_block = None, wp_ptr = None\<rparr>"

text \<open>
  \<^verbatim>\<open>explicit WeakPtr(std::string* ptr) : ptr_(ptr)\<close>. The member \<^verbatim>\<open>block_\<close> keeps its
  default initialiser \<^verbatim>\<open>nullptr\<close>; the constructor body then tests it.
\<close>

definition WeakPtr_from_raw :: "heap \<Rightarrow> addr option \<Rightarrow> (heap \<times> WeakPtr) option" where
  "WeakPtr_from_raw h ptr =
     (let this = \<lparr>wp_block = None, wp_ptr = ptr\<rparr>
      in case wp_block this of
           Some b \<Rightarrow> do {
             h1 \<leftarrow> modify b (\<lambda>cb. cb\<lparr>weak_count := 1\<rparr>) h;
             Some (h1, this)
           }
         | None \<Rightarrow> Some (h, this))"

text \<open>\<^verbatim>\<open>WeakPtr(const WeakPtr& other)\<close>\<close>

definition WeakPtr_copy :: "heap \<Rightarrow> WeakPtr \<Rightarrow> (heap \<times> WeakPtr) option" where
  "WeakPtr_copy h other =
     (let this = \<lparr>wp_block = wp_block other, wp_ptr = wp_ptr other\<rparr>
      in case wp_block this of
           Some b \<Rightarrow> do {
             h1 \<leftarrow> modify b (\<lambda>cb. cb\<lparr>weak_count := weak_count cb + 1\<rparr>) h;
             Some (h1, this)
           }
         | None \<Rightarrow> Some (h, this))"

text \<open>\<^verbatim>\<open>WeakPtr(WeakPtr&& other)\<close>\<close>

definition WeakPtr_move :: "WeakPtr \<Rightarrow> WeakPtr \<times> WeakPtr" where
  "WeakPtr_move other =
     (let this = \<lparr>wp_block = wp_block other, wp_ptr = wp_ptr other\<rparr>
      in (this, other\<lparr>wp_block := None, wp_ptr := None\<rparr>))"

text \<open>\<^verbatim>\<open>explicit WeakPtr(const SharedPtr& shared)\<close>\<close>

definition WeakPtr_from_shared :: "heap \<Rightarrow> SharedPtr \<Rightarrow> (heap \<times> WeakPtr) option" where
  "WeakPtr_from_shared h shared =
     (let this = \<lparr>wp_block = sp_block shared, wp_ptr = sp_ptr shared\<rparr>
      in case wp_block this of
           Some b \<Rightarrow> do {
             h1 \<leftarrow> modify b (\<lambda>cb. cb\<lparr>weak_count := weak_count cb + 1\<rparr>) h;
             Some (h1, this)
           }
         | None \<Rightarrow> Some (h, this))"

text \<open>\<^verbatim>\<open>void WeakPtr::Release()\<close>\<close>

definition WeakPtr_Release :: "heap \<Rightarrow> WeakPtr \<Rightarrow> (heap \<times> WeakPtr) option" where
  "WeakPtr_Release h this =
     (case wp_block this of
        Some b \<Rightarrow> do {
          h1 \<leftarrow> modify b (\<lambda>cb. cb\<lparr>weak_count := weak_count cb - 1\<rparr>) h;
          cb \<leftarrow> blocks h1 b;
          h2 \<leftarrow> (if weak_count cb = 0 \<and> shared_count cb = 0 then delete_block b h1
                 else Some h1);
          Some (h2, this\<lparr>wp_block := None, wp_ptr := None\<rparr>)
        }
      | None \<Rightarrow> Some (h, this\<lparr>wp_ptr := None\<rparr>))"

text \<open>The body of \<^verbatim>\<open>operator=(const WeakPtr& other)\<close> under \<^verbatim>\<open>this != &other\<close>.\<close>

definition WeakPtr_copy_assign_body ::
    "heap \<Rightarrow> WeakPtr \<Rightarrow> WeakPtr \<Rightarrow> (heap \<times> WeakPtr) option" where
  "WeakPtr_copy_assign_body h this other = do {
     (h1, this1) \<leftarrow> WeakPtr_Release h this;
     let this2 = this1\<lparr>wp_ptr := wp_ptr other, wp_block := wp_block other\<rparr>;
     case wp_block this2 of
       Some b \<Rightarrow> do {
         h2 \<leftarrow> modify b (\<lambda>cb. cb\<lparr>weak_count := weak_count cb + 1\<rparr>) h1;
         Some (h2, this2)
       }
     | None \<Rightarrow> Some (h1, this2)
   }"

text \<open>The body of \<^verbatim>\<open>operator=(WeakPtr&& other)\<close> under \<^verbatim>\<open>this != &other\<close>.\<close>

definition WeakPtr_move_assign_body ::
    "heap \<Rightarrow> WeakPtr \<Rightarrow> WeakPtr \<Rightarrow> (heap \<times> WeakPtr \<times> WeakPtr) option" where
  "WeakPtr_move_assign_body h this other = do {
     (h1, this1) \<leftarrow> WeakPtr_Release h this;
     let this2 = this1\<lparr>wp_ptr := wp_ptr other, wp_block := wp_block other\<rparr>;
     Some (h1, this2, other\<lparr>wp_ptr := None, wp_block := None\<rparr>)
   }"

text \<open>
  \<^verbatim>\<open>SharedPtr Lock() const\<close>. The handle itself is \<^verbatim>\<open>const\<close> here, so only the heap and
  the returned \<^verbatim>\<open>SharedPtr\<close> come back.
\<close>

definition Lock :: "heap \<Rightarrow> WeakPtr \<Rightarrow> (heap \<times> SharedPtr) option" where
  "Lock h this =
     (case wp_block this of
        Some b \<Rightarrow> do {
          cb \<leftarrow> blocks h b;
          if 0 < shared_count cb then SharedPtr_from_weak h this
          else Some (h, SharedPtr_default)
        }
      | None \<Rightarrow> Some (h, SharedPtr_default))"

text \<open>\<^verbatim>\<open>bool IsExpired() const\<close>: reads, and returns nothing but the answer.\<close>

definition IsExpired :: "heap \<Rightarrow> WeakPtr \<Rightarrow> bool option" where
  "IsExpired h this =
     (case wp_block this of
        Some b \<Rightarrow> do {
          cb \<leftarrow> blocks h b;
          Some (shared_count cb = 0)
        }
      | None \<Rightarrow> Some True)"

subsection \<open>Handle objects in a store\<close>

text \<open>
  Assignment compares object addresses (\<^verbatim>\<open>this != &other\<close>) and a move writes to its
  source, so handle objects are kept in a store, indexed by the object's address. A world
  is the heap of control blocks, the live \<^verbatim>\<open>SharedPtr\<close> objects and the live \<^verbatim>\<open>WeakPtr\<close>
  objects. The list \<open>adopted\<close> is bookkeeping of the caller's side: the raw string
  pointers handed to \<^verbatim>\<open>SharedPtr(std::string*)\<close> or \<^verbatim>\<open>Reset\<close> so far.
\<close>

type_synonym obj = nat

record world =
  hp :: heap
  shared :: "obj \<rightharpoonup> SharedPtr"
  weak :: "obj \<rightharpoonup> WeakPtr"
  adopted :: "addr list"

definition init :: world where
  "init = \<lparr>hp = \<lparr>blocks = Map.empty, next_block = 0, deleted_blocks = [],
                 deleted_strings = []\<rparr>,
           shared = Map.empty, weak = Map.empty, adopted = []\<rparr>"

definition adopt :: "addr option \<Rightarrow> addr list \<Rightarrow> addr list" where
  "adopt p as = (case p of None \<Rightarrow> as | Some a \<Rightarrow> a # as)"

text \<open>\<^verbatim>\<open>x = y\<close> on two stored \<^verbatim>\<open>SharedPtr\<close> objects, with the identity test of the source.\<close>

definition SharedPtr_copy_assign :: "world \<Rightarrow> obj \<Rightarrow> obj \<Rightarrow> world option" where
  "SharedPtr_copy_assign W x y = do {
     this \<leftarrow> shared W x;
     other \<leftarrow> shared W y;
     if x \<noteq> y then do {
       (h, this') \<leftarrow> SharedPtr_copy_assign_body (hp W) this other;
       Some (W\<lparr>hp := h, shared := (shared W)(x \<mapsto> this')\<rparr>)
     }
     else Some W
   }"

text \<open>\<^verbatim>\<open>x = std::move(y)\<close> on two stored \<^verbatim>\<open>SharedPtr\<close> objects.\<close>

definition SharedPtr_move_assign :: "world \<Rightarrow> obj \<Rightarrow> obj \<Rightarrow> world option" where
  "SharedPtr_move_assign W x y = do {
     this \<leftarrow> shared W x;
     other \<leftarrow> shared W y;
     if x \<noteq> y then do {
       (h, this', other') \<leftarrow> SharedPtr_move_assign_body (hp W) this other;
       Some (W\<lparr>hp := h, shared := (shared W)(y \<mapsto> other', x \<mapsto> this')\<rparr>)
     }
     else Some W
   }"

text \<open>\<^verbatim>\<open>x = y\<close> on two stored \<^verbatim>\<open>WeakPtr\<close> objects.\<close>

definition WeakPtr_copy_assign :: "world \<Rightarrow> obj \<Rightarrow> obj \<Rightarrow> world option" where
  "WeakPtr_copy_assign W x y = do {
     this \<leftarrow> weak W x;
     other \<leftarrow> weak W y;
     if x \<noteq> y then do {
       (h, this') \<leftarrow> WeakPtr_copy_assign_body (hp W) this other;
       Some (W\<lparr>hp := h, weak := (weak W)(x \<mapsto> this')\<rparr>)
     }
     else Some W
   }"

text \<open>\<^verbatim>\<open>x = std::move(y)\<close> on two stored \<^verbatim>\<open>WeakPtr\<close> objects.\<close>

definition WeakPtr_move_assign :: "world \<Rightarrow> obj \<Rightarrow> obj \<Rightarrow> world option" where
  "WeakPtr_move_assign W x y = do {
     this \<leftarrow> weak W x;
     other \<leftarrow> weak W y;
     if x \<noteq> y then do {
       (h, this', other') \<leftarrow> WeakPtr_move_assign_body (hp W) this other;
       Some (W\<lparr>hp := h, weak := (weak W)(y \<mapsto> other', x \<mapsto> this')\<rparr>)
     }
     else Some W
   }"

text \<open>
  What a client can do with handles. A constructor event names the address of the new
  object first; \<open>W_Lock x y\<close> is \<^verbatim>\<open>SharedPtr x = y.Lock();\<close>.
\<close>

datatype event =
    S_default obj
  | S_from_raw obj "addr option"
  | S_copy obj obj
  | S_move obj obj
  | S_from_weak obj obj
  | S_copy_assign obj obj
  | S_move_assign obj obj
  | S_Reset obj "addr option"
  | S_destroy obj
  | W_default obj
  | W_from_raw obj "addr option"
  | W_copy obj obj
  | W_move obj obj
  | W_from_shared obj obj
  | W_copy_assign obj obj
  | W_move_assign obj obj
  | W_Lock obj obj
  | W_destroy obj

fun step :: "world \<Rightarrow> event \<Rightarrow> world option" where
  "step W (S_default x) = Some (W\<lparr>shared := (shared W)(x \<mapsto> SharedPtr_default)\<rparr>)"
| "step W (S_from_raw x p) = do {
     (h, this) \<leftarrow> SharedPtr_from_raw (hp W) p;
     Some (W\<lparr>hp := h, shared := (shared W)(x \<mapsto> this), adopted := adopt p (adopted W)\<rparr>)
   }"
| "step W (S_copy x y) = do {
     other \<leftarrow> shared W y;
     (h, this) \<leftarrow> SharedPtr_copy (hp W) other;
     Some (W\<lparr>hp := h, shared := (shared W)(x \<mapsto> this)\<rparr>)
   }"
| "step W (S_move x y) = do {
     other \<leftarrow> shared W y;
     let (this, other') = SharedPtr_move other;
     Some (W\<lparr>shared := (shared W)(y \<mapsto> other', x \<mapsto> this)\<rparr>)
   }"
| "step W (S_from_weak x y) = do {
     ptr \<leftarrow> weak W y;
     (h, this) \<leftarrow> SharedPtr_from_weak (hp W) ptr;
     Some (W\<lparr>hp := h, shared := (shared W)(x \<mapsto> this)\<rparr>)
   }"
| "step W (S_copy_assign x y) = SharedPtr_copy_assign W x y"
| "step W (S_move_assign x y) = SharedPtr_move_assign W x y"
| "step W (S_Reset x p) = do {
     this \<leftarrow> shared W x;
     (h, this') \<leftarrow> Reset (hp W) this p;
     Some (W\<lparr>hp := h, shared := (shared W)(x \<mapsto> this'), adopted := adopt p (adopted W)\<rparr>)
   }"
| "step W (S_destroy x) = do {
     this \<leftarrow> shared W x;
     (h, this') \<leftarrow> SharedPtr_Release (hp W) this;
     Some (W\<lparr>hp := h, shared := (shared W)(x := None)\<rparr>)
   }"
| "step W (W_default x) = Some (W\<lparr>weak := (weak W)(x \<mapsto> WeakPtr_default)\<rparr>)"
| "step W (W_from_raw x p) = do {
     (h, this) \<leftarrow> WeakPtr_from_raw (hp W) p;
     Some (W\<lparr>hp := h, weak := (weak W)(x \<mapsto> this)\<rparr>)
   }"
| "step W (W_copy x y) = do {
     other \<leftarrow> weak W y;
     (h, this) \<leftarrow> WeakPtr_copy (hp W) other;
     Some (W\<lparr>hp := h, weak := (weak W)(x \<mapsto> this)\<rparr>)
   }"
| "step W (W_move x y) = do {
     other \<leftarrow> weak W y;
     let (this, other') = WeakPtr_move other;
     Some (W\<lparr>weak := (weak W)(y \<mapsto> other', x \<mapsto> this)\<rparr>)
   }"
| "step W (W_from_shared x y) = do {
     other \<leftarrow> shared W y;
     (h, this) \<leftarrow> WeakPtr_from_shared (hp W) other;
     Some (W\<lparr>hp := h, weak := (weak W)(x \<mapsto> this)\<rparr>)
   }"
| "step W (W_copy_assign x y) = WeakPtr_copy_assign W x y"
| "step W (W_move_assign x y) = WeakPtr_move_assign W x y"
| "step W (W_Lock x y) = do {
     this \<leftarrow> weak W y;
     (h, res) \<leftarrow> Lock (hp W) this;
     Some (W\<lparr>hp := h, shared := (shared W)(x \<mapsto> res)\<rparr>)
   }"
| "step W (W_destroy x) = do {
     this \<leftarrow> weak W x;
     (h, this') \<leftarrow> WeakPtr_Release (hp W) this;
     Some (W\<lparr>hp := h, weak := (weak W)(x := None)\<rparr>)
   }"

fun run :: "world \<Rightarrow> event list \<Rightarrow> world option" where
  "run W [] = Some W"
| "run W (e # es) = (case step W e of None \<Rightarrow> None | Some W' \<Rightarrow> run W' es)"

text \<open>
  The caller's obligations, which the header leaves to the caller (section 7 of the
  specification calls their violation undefined behaviour):
  \<^item> a constructor runs on storage that holds no live handle, every other operation on
    live handles;
  \<^item> a non-null raw pointer given to \<^verbatim>\<open>SharedPtr(std::string*)\<close> or \<^verbatim>\<open>Reset\<close> is handed
    over exclusively: it was never given to a handle before;
  \<^item> a counter that the operation increments is below \<^verbatim>\<open>SIZE_MAX\<close> (with 16-byte handle
    objects in a 64-bit address space there are never that many handles).
\<close>

definition exclusive :: "world \<Rightarrow> addr option \<Rightarrow> bool" where
  "exclusive W p = (case p of None \<Rightarrow> True | Some a \<Rightarrow> a \<notin> set (adopted W))"

definition room :: "(ControlBlock \<Rightarrow> size_t) \<Rightarrow> heap \<Rightarrow> addr option \<Rightarrow> bool" where
  "room cnt h p =
     (case p of
        None \<Rightarrow> True
      | Some b \<Rightarrow> (case blocks h b of None \<Rightarrow> True | Some cb \<Rightarrow> cnt cb \<noteq> - 1))"

fun ok_event :: "world \<Rightarrow> event \<Rightarrow> bool" where
  "ok_event W (S_default x) = (shared W x = None)"
| "ok_event W (S_from_raw x p) = (shared W x = None \<and> exclusive W p)"
| "ok_event W (S_copy x y) =
     (shared W x = None \<and>
      (case shared W y of None \<Rightarrow> False | Some s \<Rightarrow> room shared_count (hp W) (sp_block s)))"
| "ok_event W (S_move x y) = (shared W x = None \<and> shared W y \<noteq> None)"
| "ok_event W (S_from_weak x y) =
     (shared W x = None \<and>
      (case weak W y of None \<Rightarrow> False | Some w \<Rightarrow> room shared_count (hp W) (wp_block w)))"
| "ok_event W (S_copy_assign x y) =
     (shared W x \<noteq> None \<and>
      (case shared W y of None \<Rightarrow> False | Some s \<Rightarrow> room shared_count (hp W) (sp_block s)))"
| "ok_event W (S_move_assign x y) = (shared W x \<noteq> None \<and> shared W y \<noteq> None)"
| "ok_event W (S_Reset x p) = (shared W x \<noteq> None \<and> exclusive W p)"
| "ok_event W (S_destroy x) = (shared W x \<noteq> None)"
| "ok_event W (W_default x) = (weak W x = None)"
| "ok_event W (W_from_raw x p) = (weak W x = None)"
| "ok_event W (W_copy x y) =
     (weak W x = None \<and>
      (case weak W y of None \<Rightarrow> False | Some w \<Rightarrow> room weak_count (hp W) (wp_block w)))"
| "ok_event W (W_move x y) = (weak W x = None \<and> weak W y \<noteq> None)"
| "ok_event W (W_from_shared x y) =
     (weak W x = None \<and>
      (case shared W y of None \<Rightarrow> False | Some s \<Rightarrow> room weak_count (hp W) (sp_block s)))"
| "ok_event W (W_copy_assign x y) =
     (weak W x \<noteq> None \<and>
      (case weak W y of None \<Rightarrow> False | Some w \<Rightarrow> room weak_count (hp W) (wp_block w)))"
| "ok_event W (W_move_assign x y) = (weak W x \<noteq> None \<and> weak W y \<noteq> None)"
| "ok_event W (W_Lock x y) =
     (shared W x = None \<and>
      (case weak W y of None \<Rightarrow> False | Some w \<Rightarrow> room shared_count (hp W) (wp_block w)))"
| "ok_event W (W_destroy x) = (weak W x \<noteq> None)"

text \<open>A client program is admissible when it meets its obligations at every step.\<close>

fun admissible :: "world \<Rightarrow> event list \<Rightarrow> bool" where
  "admissible W [] = True"
| "admissible W (e # es) =
     (ok_event W e \<and> (case step W e of None \<Rightarrow> True | Some W' \<Rightarrow> admissible W' es))"

subsection \<open>What the handles of a world refer to\<close>

definition owners :: "(obj \<rightharpoonup> SharedPtr) \<Rightarrow> addr \<Rightarrow> obj set" where
  "owners m b = {x. \<exists>s. m x = Some s \<and> sp_block s = Some b}"

definition observers :: "(obj \<rightharpoonup> WeakPtr) \<Rightarrow> addr \<Rightarrow> obj set" where
  "observers m b = {x. \<exists>w. m x = Some w \<and> wp_block w = Some b}"

definition held :: "(obj \<rightharpoonup> SharedPtr) \<Rightarrow> addr set" where
  "held m = {a. \<exists>x s. m x = Some s \<and> sp_ptr s = Some a}"

text \<open>The two counters of a block, read from outside (\<open>None\<close> when the block is not live).\<close>

definition counters :: "addr \<Rightarrow> world \<Rightarrow> (size_t \<times> size_t) option" where
  "counters b W = map_option (\<lambda>cb. (shared_count cb, weak_count cb)) (blocks (hp W) b)"

section \<open>Properties\<close>

subsection \<open>Constructors from raw pointers\<close>

text \<open>
  Claim C5. Constructing an owning handle from a non-null raw pointer allocates a new
  control block (at the allocator's next address) with \<open>shared_count = 1\<close> and
  \<open>weak_count = 0\<close>, and the handle holds the pointer and that block. From a null pointer
  the handle is empty and the heap is unchanged: no block is allocated.
\<close>

theorem from_raw_allocates:
  "SharedPtr_from_raw h (Some a) =
     Some (h\<lparr>blocks := (blocks h)(next_block h \<mapsto> \<lparr>shared_count = 1, weak_count = 0\<rparr>),
             next_block := Suc (next_block h)\<rparr>,
           \<lparr>sp_ptr = Some a, sp_block = Some (next_block h)\<rparr>)
   \<and> SharedPtr_from_raw h None = Some (h, \<lparr>sp_ptr = None, sp_block = None\<rparr>)"
  by (simp add: SharedPtr_from_raw_def new_ControlBlock_def modify_def Let_def)

theorem from_raw_allocates_witness:
  "map_option snd (SharedPtr_from_raw (hp init) (Some 7)) = Some \<lparr>sp_ptr = Some 7, sp_block = Some 0\<rparr>
   \<and> map_option snd (SharedPtr_from_raw (hp init) None) = Some \<lparr>sp_ptr = None, sp_block = None\<rparr>"
  using from_raw_allocates [of "hp init" 7] by (simp add: init_def)

text \<open>
  Claim C9. An observer handle constructed from a raw pointer stores the pointer, has a
  null control-block reference and touches no counter (the heap is returned as it was).
  For such a handle, in any heap, \<open>IsExpired\<close> answers true and \<open>Lock\<close> returns an empty
  owning handle, whatever the raw pointer.
\<close>

theorem weak_from_raw_detached:
  "WeakPtr_from_raw h p = Some (h, \<lparr>wp_block = None, wp_ptr = p\<rparr>)
   \<and> IsExpired h' \<lparr>wp_block = None, wp_ptr = p\<rparr> = Some True
   \<and> Lock h' \<lparr>wp_block = None, wp_ptr = p\<rparr> = Some (h', \<lparr>sp_ptr = None, sp_block = None\<rparr>)"
  by (simp add: WeakPtr_from_raw_def IsExpired_def Lock_def SharedPtr_default_def)

theorem weak_from_raw_detached_witness:
  "WeakPtr_from_raw (hp init) (Some 7) = Some (hp init, \<lparr>wp_block = None, wp_ptr = Some 7\<rparr>)
   \<and> IsExpired (hp init) \<lparr>wp_block = None, wp_ptr = Some 7\<rparr> = Some True
   \<and> Lock (hp init) \<lparr>wp_block = None, wp_ptr = Some 7\<rparr>
       = Some (hp init, \<lparr>sp_ptr = None, sp_block = None\<rparr>)"
  using weak_from_raw_detached [of "hp init" "Some 7" "hp init"] by simp

end
